theory Spec2Isabelle
  imports Main "HOL-Library.Word"
begin

section \<open>Bytes, errors and panics\<close>

text \<open>
  A Go \<^verbatim>\<open>[]byte\<close> and a Go \<^verbatim>\<open>string\<close> are both sequences of bytes; both are modelled
  as \<^typ>\<open>string\<close> (a list of 8-bit characters).
\<close>

type_synonym bytes = string

text \<open>The two failure kinds of package strconv (\<^verbatim>\<open>strconv.ErrSyntax\<close>, \<^verbatim>\<open>strconv.ErrRange\<close>).\<close>

datatype num_error = ErrSyntax | ErrRange

text \<open>
  The error values that occur in the modelled code. \<^verbatim>\<open>errInvalidPayload\<close> and
  \<^verbatim>\<open>errInvalidFrame\<close> are the two error types declared in the websockets package;
  \<^verbatim>\<open>errNoPostOpen\<close> is a package variable used by \<^verbatim>\<open>hasPost\<close>;
  \<^verbatim>\<open>CloseError\<close> is \<^verbatim>\<open>*websocket.CloseError\<close> with its Code and Text;
  \<^verbatim>\<open>NumError\<close> is \<^verbatim>\<open>*strconv.NumError\<close> with Func, Num and Err;
  \<^verbatim>\<open>WrapError\<close> is the value built by \<^verbatim>\<open>util.WrapError(text, inner)\<close>;
  \<^verbatim>\<open>ExternalError\<close> is any other error (network, database, handler), named by its text.
\<close>

datatype error =
    errInvalidPayload bytes
  | errInvalidFrame string
  | errNoPostOpen
  | CloseError int string
  | NumError string string num_error
  | WrapError string "error option"
  | ExternalError string

text \<open>
  The \<^verbatim>\<open>Error()\<close> method. The source defines it for \<^verbatim>\<open>errInvalidPayload\<close>
  (\<^verbatim>\<open>fmt.Sprintf("invalid message: %s", string(e))\<close>) and \<^verbatim>\<open>errInvalidFrame\<close>
  (\<^verbatim>\<open>string(e)\<close>); the text of every other error is defined outside the modelled files
  and is the parameter \<open>ext\<close>.
\<close>

fun Error :: "(error \<Rightarrow> string) \<Rightarrow> error \<Rightarrow> string" where
  "Error ext (errInvalidPayload e) = ''invalid message: '' @ e"
| "Error ext (errInvalidFrame e) = e"
| "Error ext e = ext e"

text \<open>Run-time panics of the Go operations used by the modelled code.\<close>

datatype panic = CloseOfNilChannel | CloseOfClosedChannel | SliceBoundsOutOfRange

section \<open>Package strconv (base 10)\<close>

definition digits :: string where
  "digits = ''0123456789''"

text \<open>\<^verbatim>\<open>strconv.FormatUint(n, 10)\<close>: the decimal digits of \<open>n\<close>, most significant first.\<close>

function FormatUint :: "nat \<Rightarrow> string" where
  "FormatUint n =
     (if n < 10 then [digits ! n] else FormatUint (n div 10) @ [digits ! (n mod 10)])"
  by pat_completeness auto
termination
  by (relation "measure (\<lambda>n. n)") auto

declare FormatUint.simps [simp del]

definition isDigit :: "char \<Rightarrow> bool" where
  "isDigit c = (48 \<le> (of_char c :: nat) \<and> (of_char c :: nat) \<le> 57)"

definition digitVal :: "char \<Rightarrow> nat" where
  "digitVal c = (of_char c :: nat) - 48"

text \<open>
  The digit loop of \<^verbatim>\<open>strconv.ParseUint\<close> for base 10: bytes are read left to right;
  the first byte that is not a decimal digit is a syntax error, the first digit that takes
  the value above \<open>maxVal\<close> is a range error. (Go tests the overflow on 64-bit values with a
  cutoff before the multiplication; on unbounded naturals that is the single comparison
  below, since \<open>maxVal < 2 ^ 64\<close>.)
\<close>

fun parseUintLoop :: "nat \<Rightarrow> nat \<Rightarrow> string \<Rightarrow> num_error + nat" where
  "parseUintLoop maxVal n [] = Inr n"
| "parseUintLoop maxVal n (c # cs) =
     (if \<not> isDigit c then Inl ErrSyntax
      else if n * 10 + digitVal c > maxVal then Inl ErrRange
      else parseUintLoop maxVal (n * 10 + digitVal c) cs)"

text \<open>\<^verbatim>\<open>strconv.ParseUint(s, 10, bitSize)\<close> for \<open>0 < bitSize \<le> 64\<close>: no sign, no underscore.\<close>

definition ParseUint :: "string \<Rightarrow> nat \<Rightarrow> error + nat" where
  "ParseUint s bitSize =
     (if s = [] then Inl (NumError ''ParseUint'' s ErrSyntax)
      else case parseUintLoop (2 ^ bitSize - 1) 0 s of
             Inl e \<Rightarrow> Inl (NumError ''ParseUint'' s e)
           | Inr n \<Rightarrow> Inr n)"

text \<open>
  \<^verbatim>\<open>strconv.Atoi(s)\<close> with a 64-bit \<^verbatim>\<open>int\<close>: an optional sign, then at least one decimal
  digit; the magnitude is read by the same digit loop as 64-bit unsigned and must fit
  the signed range.
\<close>

definition Atoi :: "string \<Rightarrow> error + int" where
  "Atoi s =
     (if s = [] then Inl (NumError ''Atoi'' s ErrSyntax)
      else
        let neg = (hd s = CHR ''-'');
            body = (if hd s = CHR ''+'' \<or> hd s = CHR ''-'' then tl s else s)
        in if body = [] then Inl (NumError ''Atoi'' s ErrSyntax)
           else case parseUintLoop (2 ^ 64 - 1) 0 body of
                  Inl ErrSyntax \<Rightarrow> Inl (NumError ''Atoi'' s ErrSyntax)
                | Inl ErrRange \<Rightarrow> Inl (NumError ''Atoi'' s ErrRange)
                | Inr un \<Rightarrow>
                    if \<not> neg \<and> un \<ge> 2 ^ 63 then Inl (NumError ''Atoi'' s ErrRange)
                    else if neg \<and> un > 2 ^ 63 then Inl (NumError ''Atoi'' s ErrRange)
                    else Inr (if neg then - int un else int un))"

section \<open>Message codec\<close>

text \<open>
  \<^verbatim>\<open>messageType\<close> is an 8-bit unsigned integer (the decoder parses it with bit size 8).
\<close>

type_synonym messageType = "8 word"

text \<open>The Go builtin \<^verbatim>\<open>copy(dst, src)\<close>: the contents of \<open>dst\<close> afterwards.\<close>

definition copy :: "'a list \<Rightarrow> 'a list \<Rightarrow> 'a list" where
  "copy dst src = take (length dst) src @ drop (length src) dst"

text \<open>
  \<^verbatim>\<open>encodeMessage(typ, msg)\<close>. \<^verbatim>\<open>json.Marshal\<close> is the parameter \<open>marshal\<close>.
\<close>

definition encodeMessage ::
  "('a \<Rightarrow> error + bytes) \<Rightarrow> messageType \<Rightarrow> 'a \<Rightarrow> error + bytes" where
  "encodeMessage marshal typ msg =
     (case marshal msg of
        Inl err \<Rightarrow> Inl err
      | Inr data \<Rightarrow>
          let encoded = replicate (length data + 2) (CHR 0x00);
              typeString = FormatUint (unat typ);
              encoded' = (if length typeString = 1
                          then encoded[0 := CHR ''0'', 1 := typeString ! 0]
                          else copy encoded typeString)
          in Inr (take 2 encoded' @ copy (drop 2 encoded') data))"

section \<open>Connections, channels and clients\<close>

text \<open>Frame types and close codes of the websocket library.\<close>

definition TextMessage :: int where "TextMessage = 1"
definition CloseMessage :: int where "CloseMessage = 8"
definition PingMessage :: int where "PingMessage = 9"
definition CloseNormalClosure :: int where "CloseNormalClosure = 1000"
definition CloseGoingAway :: int where "CloseGoingAway = 1001"
definition CloseInvalidFramePayloadData :: int where "CloseInvalidFramePayloadData = 1007"

text \<open>
  A frame handed to the connection: \<^verbatim>\<open>WriteMessage(type, data)\<close> or
  \<^verbatim>\<open>WriteControl(type, data, deadline)\<close>. Times are nanoseconds since the Unix epoch.
\<close>

datatype wsframe = Message int bytes | Control int bytes int

text \<open>
  The underlying \<^verbatim>\<open>*websocket.Conn\<close>, seen from the code that uses it: \<open>sent\<close> lists
  every frame handed to it, in order, whether or not the write succeeded;
  \<open>writeResult n\<close> is what the library returns for the write made after \<open>n\<close> earlier
  ones; \<open>closeResult\<close> is what \<^verbatim>\<open>Close()\<close> returns.
\<close>

record wsconn =
  sent :: "wsframe list"
  writeResult :: "nat \<Rightarrow> error option"
  closeResult :: "error option"
  closed :: bool

definition WriteMessage :: "wsconn \<Rightarrow> int \<Rightarrow> bytes \<Rightarrow> error option \<times> wsconn" where
  "WriteMessage k t d =
     (writeResult k (length (sent k)), k\<lparr>sent := sent k @ [Message t d]\<rparr>)"

definition WriteControl :: "wsconn \<Rightarrow> int \<Rightarrow> bytes \<Rightarrow> int \<Rightarrow> error option \<times> wsconn" where
  "WriteControl k t d deadline =
     (writeResult k (length (sent k)), k\<lparr>sent := sent k @ [Control t d deadline]\<rparr>)"

definition connClose :: "wsconn \<Rightarrow> error option \<times> wsconn" where
  "connClose k = (closeResult k, k\<lparr>closed := True\<rparr>)"

text \<open>
  \<^verbatim>\<open>websocket.FormatCloseMessage(closeCode, text)\<close>: the code as a big-endian 16-bit
  value, then the text; empty for the code 1005 (no status received).
\<close>

definition FormatCloseMessage :: "int \<Rightarrow> string \<Rightarrow> bytes" where
  "FormatCloseMessage closeCode text =
     (if closeCode = 1005 then []
      else [char_of ((closeCode mod 65536) div 256), char_of (closeCode mod 256)] @ text)"

text \<open>
  A channel, as far as the modelled code observes it: nil, open or closed. The values that
  travel through \<^verbatim>\<open>receive\<close> and \<^verbatim>\<open>write\<close> are the events of the control loop below.
\<close>

datatype chan = ChanNil | ChanOpen | ChanClosed

text \<open>The builtin \<^verbatim>\<open>close(ch)\<close>: it panics on a nil and on a closed channel.\<close>

fun close_chan :: "chan \<Rightarrow> panic + chan" where
  "close_chan ChanNil = Inl CloseOfNilChannel"
| "close_chan ChanClosed = Inl CloseOfClosedChannel"
| "close_chan ChanOpen = Inr ChanClosed"

text \<open>
  \<^verbatim>\<open>openPost\<close>: the embedded \<^verbatim>\<open>bytes.Buffer\<close> is \<open>post_Buffer\<close>; the fields
  \<^verbatim>\<open>bodyLength\<close>, \<^verbatim>\<open>id\<close>, \<^verbatim>\<open>op\<close>, \<^verbatim>\<open>time\<close> and \<^verbatim>\<open>board\<close> carry the prefix
  \<open>post_\<close>. \<^verbatim>\<open>time\<close> is in seconds since the Unix epoch.
\<close>

record openPost =
  post_Buffer :: bytes
  post_bodyLength :: int
  post_id :: int
  post_op :: int
  post_time :: int
  post_board :: string

text \<open>
  \<^verbatim>\<open>Client\<close>. Of the embedded \<^verbatim>\<open>auth.Ident\<close> only the field \<^verbatim>\<open>IP\<close> is used. The field
  \<^verbatim>\<open>write\<close> is \<open>write'\<close> here (the plain name is reserved in Isabelle).
\<close>

record client =
  synced :: bool
  IP :: string
  conn :: wsconn
  sessionToken :: string
  openPost :: openPost
  receive :: chan
  write' :: chan
  close :: chan
  closeUpdateFeed :: chan

text \<open>
  \<^verbatim>\<open>receivedMessage\<close>: the fields \<^verbatim>\<open>typ\<close>, \<^verbatim>\<open>msg\<close> and \<^verbatim>\<open>err\<close> carry the prefix \<open>rm_\<close>.
\<close>

record receivedMessage =
  rm_typ :: int
  rm_msg :: bytes
  rm_err :: "error option"

text \<open>
  A message handler (\<^verbatim>\<open>func(data []byte, c *Client) error\<close>): it returns its error and
  the client as it left it.
\<close>

type_synonym handler = "bytes \<Rightarrow> client \<Rightarrow> error option \<times> client"

text \<open>
  The message type constants and the \<^verbatim>\<open>handlers\<close> table are declared in files of the
  package outside the modelled sources; they are parameters.
\<close>

record protocol =
  messageInvalid :: messageType
  messageSynchronise :: messageType
  messageResynchronise :: messageType
  handlers :: "messageType \<rightharpoonup> handler"

section \<open>Sending and dispatching messages\<close>

definition send :: "client \<Rightarrow> bytes \<Rightarrow> error option \<times> client" where
  "send c m =
     (case WriteMessage (conn c) TextMessage m of (e, k) \<Rightarrow> (e, c\<lparr>conn := k\<rparr>))"

definition sendMessage ::
  "('a \<Rightarrow> error + bytes) \<Rightarrow> client \<Rightarrow> messageType \<Rightarrow> 'a \<Rightarrow> error option \<times> client" where
  "sendMessage marshal c t m =
     (case encodeMessage marshal t m of
        Inl e \<Rightarrow> (Some e, c)
      | Inr encoded \<Rightarrow> send c encoded)"

text \<open>\<^verbatim>\<open>runHandler\<close>: the slice \<^verbatim>\<open>msg[2:]\<close> panics on a message shorter than two bytes.\<close>

definition runHandler ::
  "protocol \<Rightarrow> client \<Rightarrow> messageType \<Rightarrow> bytes \<Rightarrow> panic + (error option \<times> client)" where
  "runHandler P c t m =
     (if length m < 2 then Inl SliceBoundsOutOfRange
      else
        let data = drop 2 m
        in case handlers P t of
             None \<Rightarrow> Inr (Some (errInvalidPayload m), c)
           | Some handler \<Rightarrow> Inr (handler data c))"

definition handleMessage ::
  "protocol \<Rightarrow> client \<Rightarrow> int \<Rightarrow> bytes \<Rightarrow> panic + (error option \<times> client)" where
  "handleMessage P c msgType m =
     (if msgType \<noteq> TextMessage then Inr (Some (errInvalidFrame ''only text frames allowed''), c)
      else if length m < 2 then Inr (Some (errInvalidPayload m), c)
      else case ParseUint (take 2 m) 8 of
             Inl e \<Rightarrow> Inr (Some (errInvalidPayload m), c)
           | Inr uncast \<Rightarrow>
               let t = (of_nat uncast :: messageType)
               in if \<not> synced c \<and> t \<noteq> messageSynchronise P \<and> t \<noteq> messageResynchronise P
                  then Inr (Some (errInvalidPayload m), c)
                  else runHandler P c t m)"

section \<open>The control loop\<close>

text \<open>
  \<^verbatim>\<open>listenerLoop\<close> selects over the close channel, the receive channel, the write channel
  and the ping ticker. The sequence of cases the select takes is the input \<open>evs\<close>:
  \<open>CloseSignal\<close> (the close channel is ready, which it is only once closed; while the
  channel is not closed the select cannot take this case and the event is skipped),
  \<open>Receive m\<close> (a message forwarded by \<^verbatim>\<open>receiverLoop\<close> from the blocking read of the
  connection), \<open>WriteRequest m\<close> and \<open>Ping now\<close> (the ticker fired at time \<open>now\<close>).
  The loop has either returned an error value (\<open>Returned\<close>) or is still waiting for
  the next event (\<open>Waiting\<close>).
\<close>

datatype event = CloseSignal | Receive receivedMessage | WriteRequest bytes | Ping int

datatype loop_result = Waiting | Returned "error option"

definition writeTimeout :: int where "writeTimeout = 30 * 1000000000"

definition pingMessage :: bytes where "pingMessage = [CHR 0x01]"

fun listenerLoop ::
  "protocol \<Rightarrow> client \<Rightarrow> event list \<Rightarrow> panic + (loop_result \<times> client)" where
  "listenerLoop P c [] = Inr (Waiting, c)"
| "listenerLoop P c (CloseSignal # evs) =
     (if close c = ChanClosed then Inr (Returned None, c) else listenerLoop P c evs)"
| "listenerLoop P c (Receive r # evs) =
     (case rm_err r of
        Some e \<Rightarrow> Inr (Returned (Some e), c)
      | None \<Rightarrow>
          (case handleMessage P c (rm_typ r) (rm_msg r) of
             Inl p \<Rightarrow> Inl p
           | Inr (Some e, c') \<Rightarrow> Inr (Returned (Some e), c')
           | Inr (None, c') \<Rightarrow> listenerLoop P c' evs))"
| "listenerLoop P c (WriteRequest m # evs) =
     (case send c m of
        (Some e, c') \<Rightarrow> Inr (Returned (Some e), c')
      | (None, c') \<Rightarrow> listenerLoop P c' evs)"
| "listenerLoop P c (Ping now # evs) =
     (case WriteControl (conn c) PingMessage pingMessage (now + writeTimeout) of
        (Some e, k) \<Rightarrow> Inr (Returned (Some e), c\<lparr>conn := k\<rparr>)
      | (None, k) \<Rightarrow> listenerLoop P (c\<lparr>conn := k\<rparr>) evs)"

section \<open>Teardown\<close>

text \<open>
  \<^verbatim>\<open>closeConnections(err)\<close>. \<open>now\<close> is the value of \<^verbatim>\<open>time.Now()\<close> when the deadline of
  the close frame is computed; \<open>marshal\<close> is \<^verbatim>\<open>json.Marshal\<close> on strings. The results of
  \<^verbatim>\<open>sendMessage\<close> and of the \<^verbatim>\<open>WriteControl\<close> of the close frame are dropped, as in
  the source.
\<close>

definition closeConnections ::
  "protocol \<Rightarrow> (error \<Rightarrow> string) \<Rightarrow> (string \<Rightarrow> error + bytes) \<Rightarrow> int \<Rightarrow> client \<Rightarrow>
     error option \<Rightarrow> panic + (error option \<times> client)" where
  "closeConnections P ext marshal now c e =
     (case (if closeUpdateFeed c \<noteq> ChanNil then close_chan (closeUpdateFeed c)
            else Inr (closeUpdateFeed c)) of
        Inl p \<Rightarrow> Inl p
      | Inr feed \<Rightarrow>
     (case (if e \<noteq> None then close_chan (close c) else Inr (close c)) of
        Inl p \<Rightarrow> Inl p
      | Inr cl \<Rightarrow>
     (case close_chan (write' c) of
        Inl p \<Rightarrow> Inl p
      | Inr wr \<Rightarrow>
          let c1 = c\<lparr>closeUpdateFeed := feed, close := cl, write' := wr\<rparr>;
              (e1, closeType, c2) =
                (case e of
                   Some (CloseError code text) \<Rightarrow>
                     if code = CloseNormalClosure \<or> code = CloseGoingAway
                     then (None, CloseNormalClosure, c1)
                     else (e, 0, c1)
                 | None \<Rightarrow> (None, CloseNormalClosure, c1)
                 | Some x \<Rightarrow>
                     (e, CloseInvalidFramePayloadData,
                      snd (sendMessage marshal c1 (messageInvalid P) (Error ext x))));
              m = FormatCloseMessage closeType [];
              deadline = now + 1000000000;
              k = snd (WriteControl (conn c2) CloseMessage m deadline);
              (closeError, k') = connClose k
          in Inr (case closeError of
                    Some ce \<Rightarrow> Some (WrapError (Error ext ce) e1)
                  | None \<Rightarrow> e1,
                  c2\<lparr>conn := k'\<rparr>))))"

text \<open>
  \<^verbatim>\<open>Listen\<close> runs the control loop and, once it has returned, tears the connection down.
  \<open>None\<close> is a loop that has not returned on the given events. The removal of the
  client from the global registry (\<^verbatim>\<open>Clients.Remove\<close>) acts on state outside this model.
\<close>

definition Listen ::
  "protocol \<Rightarrow> (error \<Rightarrow> string) \<Rightarrow> (string \<Rightarrow> error + bytes) \<Rightarrow> int \<Rightarrow> client \<Rightarrow>
     event list \<Rightarrow> panic + (error option \<times> client) option" where
  "Listen P ext marshal now c evs =
     (case listenerLoop P c evs of
        Inl p \<Rightarrow> Inl p
      | Inr (Waiting, c') \<Rightarrow> Inr None
      | Inr (Returned e, c') \<Rightarrow>
          (case closeConnections P ext marshal now c' e of
             Inl p \<Rightarrow> Inl p
           | Inr r \<Rightarrow> Inr (Some r)))"

text \<open>
  \<^verbatim>\<open>Client.Close\<close>: the receive from the close channel is ready exactly when the channel
  is closed; otherwise the default case closes it.
\<close>

definition Close :: "client \<Rightarrow> panic + client" where
  "Close c =
     (if close c = ChanClosed then Inr c
      else case close_chan (close c) of
             Inl p \<Rightarrow> Inl p
           | Inr ch \<Rightarrow> Inr (c\<lparr>close := ch\<rparr>))"

definition isLoggedIn :: "client \<Rightarrow> bool" where
  "isLoggedIn c = (sessionToken c \<noteq> [])"

section \<open>The open post\<close>

definition noPost :: openPost where
  "noPost = \<lparr>post_Buffer = [], post_bodyLength = 0, post_id = 0, post_op = 0,
             post_time = 0, post_board = []\<rparr>"

text \<open>
  \<^verbatim>\<open>hasPost\<close>. \<open>now\<close> is \<^verbatim>\<open>time.Now()\<close> in nanoseconds since the Unix epoch, and
  \<^verbatim>\<open>Add(-time.Minute*29).Unix()\<close> is the floor of the seconds 29 minutes earlier.
  \<^verbatim>\<open>closePost\<close> is a message handler declared outside the modelled files; it is the
  parameter \<open>closePost\<close>, called with a nil slice.
\<close>

definition hasPost :: "handler \<Rightarrow> int \<Rightarrow> client \<Rightarrow> (bool \<times> error option) \<times> client" where
  "hasPost closePost now c =
     (if post_id (openPost c) = 0 then ((False, Some errNoPostOpen), c)
      else if post_time (openPost c) < (now - 29 * 60 * 1000000000) div 1000000000
      then (case closePost [] c of (e, c') \<Rightarrow> ((False, e), c'))
      else ((True, None), c))"

text \<open>
  Modelled from the spec: \<^verbatim>\<open>closePost\<close> is missing from the modelled files. The close
  operation flushes the accumulated body to the canonical store (the parameter \<open>flush\<close>,
  which may fail) and clears the local state; it does nothing if no post is open.
\<close>

definition closePost :: "(openPost \<Rightarrow> error option) \<Rightarrow> handler" where
  "closePost flush data c =
     (if post_id (openPost c) = 0 then (None, c)
      else case flush (openPost c) of
             Some e \<Rightarrow> (Some e, c)
           | None \<Rightarrow> (None, c\<lparr>openPost := noPost\<rparr>))"

section \<open>The handshake\<close>

text \<open>
  An HTTP request: its headers and the parsed query of its URL (\<^verbatim>\<open>req.URL.Query()\<close>),
  both maps from a key to a list of values. \<^verbatim>\<open>Get\<close> returns the first value of a key,
  or the empty string.
\<close>

record request =
  Header :: "string \<rightharpoonup> string list"
  Query :: "string \<rightharpoonup> string list"

definition Get :: "(string \<rightharpoonup> string list) \<Rightarrow> string \<Rightarrow> string" where
  "Get h key = (case h key of None \<Rightarrow> [] | Some [] \<Rightarrow> [] | Some (v # vs) \<Rightarrow> v)"

text \<open>Of a parsed \<^verbatim>\<open>url.URL\<close> only the field \<^verbatim>\<open>Host\<close> is used.\<close>

record url =
  Host :: string

text \<open>
  \<^verbatim>\<open>CheckOrigin\<close>. \<^verbatim>\<open>url.Parse\<close> is the parameter \<open>Parse\<close>, \<^verbatim>\<open>config.AllowedOrigin\<close>
  the parameter \<open>AllowedOrigin\<close>.
\<close>

definition CheckOrigin :: "(string \<Rightarrow> error + url) \<Rightarrow> string \<Rightarrow> request \<Rightarrow> bool" where
  "CheckOrigin Parse AllowedOrigin req =
     (let origin = Get (Header req) ''Origin''
      in if origin = [] then True
         else case Parse origin of
                Inl e \<Rightarrow> False
              | Inr u \<Rightarrow> Host u = AllowedOrigin)"

text \<open>
  \<^verbatim>\<open>upgrader.Upgrade\<close> of the websocket library: it validates the request (\<open>before\<close>),
  then asks the configured \<^verbatim>\<open>CheckOrigin\<close> and refuses the handshake if that returns
  false, then completes the handshake (\<open>after\<close>), which yields the connection.
\<close>

definition Upgrade ::
  "(request \<Rightarrow> error option) \<Rightarrow> (request \<Rightarrow> error + wsconn) \<Rightarrow> (request \<Rightarrow> bool) \<Rightarrow>
     request \<Rightarrow> error + wsconn" where
  "Upgrade before after checkOrigin req =
     (case before req of
        Some e \<Rightarrow> Inl e
      | None \<Rightarrow>
          if \<not> checkOrigin req then Inl (ExternalError ''websocket: origin not allowed'')
          else after req)"

text \<open>
  \<^verbatim>\<open>newClient\<close>. \<^verbatim>\<open>auth.LookUpIdent\<close> is the parameter \<open>LookUpIdent\<close>; the fields the
  source does not set have their zero values.
\<close>

definition newClient :: "(request \<Rightarrow> string) \<Rightarrow> wsconn \<Rightarrow> request \<Rightarrow> client" where
  "newClient LookUpIdent k req =
     \<lparr>synced = False, IP = LookUpIdent req, conn = k, sessionToken = [], openPost = noPost,
      receive = ChanOpen, write' = ChanOpen, close = ChanOpen, closeUpdateFeed = ChanNil\<rparr>"

text \<open>
  \<^verbatim>\<open>Handler\<close>: either the upgrade fails, the error is logged and no client is created, or a
  client is created and listens.
\<close>

datatype handled =
    UpgradeFailed error
  | Listened client "panic + (error option \<times> client) option"

definition Handler ::
  "protocol \<Rightarrow> (error \<Rightarrow> string) \<Rightarrow> (string \<Rightarrow> error + bytes) \<Rightarrow>
   (request \<Rightarrow> error option) \<Rightarrow> (request \<Rightarrow> error + wsconn) \<Rightarrow>
   (string \<Rightarrow> error + url) \<Rightarrow> string \<Rightarrow> (request \<Rightarrow> string) \<Rightarrow>
   int \<Rightarrow> request \<Rightarrow> event list \<Rightarrow> handled" where
  "Handler P ext marshal before after Parse AllowedOrigin LookUpIdent now req evs =
     (case Upgrade before after (CheckOrigin Parse AllowedOrigin) req of
        Inl e \<Rightarrow> UpgradeFailed e
      | Inr k \<Rightarrow>
          let c = newClient LookUpIdent k req
          in Listened c (Listen P ext marshal now c evs))"

section \<open>JSON API helpers\<close>

definition detectLastN :: "request \<Rightarrow> int" where
  "detectLastN req =
     (let query = Get (Query req) ''last''
      in if query \<noteq> [] then
           (case Atoi query of
              Inr lastN \<Rightarrow> if lastN \<le> 500 then lastN else 0
            | Inl e \<Rightarrow> 0)
         else 0)"

text \<open>
  What a handler has written to its \<^verbatim>\<open>http.ResponseWriter\<close>: the headers set so far and
  the output, which is nothing yet, a text error with its status code, or a body written
  with the implicit status 200.
\<close>

datatype reply = Unwritten | TextError nat error | Written bytes

record responseWriter =
  RespHeader :: "string \<rightharpoonup> string list"
  out :: reply

fun statusOf :: "reply \<Rightarrow> nat option" where
  "statusOf Unwritten = None"
| "statusOf (TextError n e) = Some n"
| "statusOf (Written b) = Some 200"

definition SetHeader :: "(string \<rightharpoonup> string list) \<Rightarrow> string \<Rightarrow> string \<Rightarrow> (string \<rightharpoonup> string list)" where
  "SetHeader h key v = h(key \<mapsto> [v])"

text \<open>
  Modelled from the spec: \<^verbatim>\<open>text400\<close>, \<^verbatim>\<open>text500\<close> and \<^verbatim>\<open>writeData\<close> are missing from
  the modelled files. As their names say, the first two answer with the status 400 and 500
  and the text of the error; \<^verbatim>\<open>writeData\<close> writes the bytes as the body.
\<close>

definition text400 :: "responseWriter \<Rightarrow> error \<Rightarrow> responseWriter" where
  "text400 w e = w\<lparr>out := TextError 400 e\<rparr>"

definition text500 :: "responseWriter \<Rightarrow> error \<Rightarrow> responseWriter" where
  "text500 w e = w\<lparr>out := TextError 500 e\<rparr>"

definition writeData :: "responseWriter \<Rightarrow> bytes \<Rightarrow> responseWriter" where
  "writeData w d = w\<lparr>out := Written d\<rparr>"

text \<open>
  Modelled from the spec: \<^verbatim>\<open>websockets.ConcatMessages\<close> is missing from the modelled
  files. The backlog is returned as the concatenation of the raw stored frames, as one
  opaque byte blob.
\<close>

definition ConcatMessages :: "bytes list \<Rightarrow> bytes" where
  "ConcatMessages frames = concat frames"

text \<open>
  Modelled from the spec: the thread store is an external collaborator. A thread's log is
  the sequence of the frames appended so far; \<open>rangeLog\<close> (the spec's \<^verbatim>\<open>range\<close>) returns the contiguous slice of the
  frames with index in \<open>[start, end)\<close>, and the empty sequence where the indices are out
  of range or the thread has no log.
\<close>

definition rangeLog :: "(nat \<rightharpoonup> bytes list) \<Rightarrow> nat \<Rightarrow> nat \<Rightarrow> nat \<Rightarrow> bytes list" where
  "rangeLog store thread start end' =
     (case store thread of
        None \<Rightarrow> []
      | Some frames \<Rightarrow> take (end' - start) (drop start frames))"

text \<open>The parameter map of a route (\<^verbatim>\<open>map[string]string\<close>): a missing key reads as \<^verbatim>\<open>""\<close>.\<close>

definition param :: "(string \<rightharpoonup> string) \<Rightarrow> string \<Rightarrow> string" where
  "param p key = (case p key of None \<Rightarrow> [] | Some v \<Rightarrow> v)"

text \<open>
  The loop of \<^verbatim>\<open>serveBacklog\<close> over the keys: \<open>args\<close> is the array filled so far, \<open>i\<close>
  the index of the next key. The first key that does not parse ends the loop with its
  error.
\<close>

fun parseArgs :: "(string \<rightharpoonup> string) \<Rightarrow> nat list \<Rightarrow> nat \<Rightarrow> string list \<Rightarrow> error + nat list" where
  "parseArgs p args i [] = Inr args"
| "parseArgs p args i (key # keys) =
     (case ParseUint (param p key) 64 of
        Inl e \<Rightarrow> Inl e
      | Inr v \<Rightarrow> parseArgs p (args[i := v]) (Suc i) keys)"

text \<open>
  \<^verbatim>\<open>serveBacklog\<close>. \<open>dbAll thread start end\<close> is the result of running the query
  (the log of the thread, sliced from \<open>start\<close> to \<open>end\<close>, nil by default) through
  \<^verbatim>\<open>db.All\<close>; \<^verbatim>\<open>util.HashBuffer\<close> is the parameter \<open>HashBuffer\<close>.
\<close>

definition serveBacklog ::
  "(nat \<Rightarrow> nat \<Rightarrow> nat \<Rightarrow> error + bytes list) \<Rightarrow> (bytes \<Rightarrow> string) \<Rightarrow> responseWriter \<Rightarrow>
     (string \<rightharpoonup> string) \<Rightarrow> responseWriter" where
  "serveBacklog dbAll HashBuffer w p =
     (case parseArgs p [0, 0, 0] 0 [''thread'', ''start'', ''end''] of
        Inl e \<Rightarrow> text400 w e
      | Inr args \<Rightarrow>
          (case dbAll (args ! 0) (args ! 1) (args ! 2) of
             Inl e \<Rightarrow> text500 w e
           | Inr log \<Rightarrow>
               let data = ConcatMessages log;
                   w1 = w\<lparr>RespHeader := SetHeader (RespHeader w) ''ETag'' (HashBuffer data)\<rparr>;
                   w2 = w1\<lparr>RespHeader :=
                          SetHeader (RespHeader w1) ''Content-Type'' ''text/plain; charset=UTF-8''\<rparr>
               in writeData w2 data))"

section \<open>Repeated calls and sample values\<close>

text \<open>\<open>CloseN n\<close> is \<open>n\<close> calls of \<^verbatim>\<open>Close\<close> in a row on the same client.\<close>

fun CloseN :: "nat \<Rightarrow> client \<Rightarrow> panic + client" where
  "CloseN 0 c = Inr c"
| "CloseN (Suc n) c = (case Close c of Inl p \<Rightarrow> Inl p | Inr c' \<Rightarrow> CloseN n c')"

text \<open>
  Sample values at which the theorems below are instantiated: a connection on which every
  write succeeds, a request without headers, a fixed identity, a fresh client, a handler
  that marks the client as synchronised, and a protocol with the type codes 0, 30 and 31.
\<close>

definition demoConn :: wsconn where
  "demoConn = \<lparr>sent = [], writeResult = (\<lambda>n. None), closeResult = None, closed = False\<rparr>"

definition demoRequest :: request where
  "demoRequest = \<lparr>Header = Map.empty, Query = Map.empty\<rparr>"

definition demoIdent :: "request \<Rightarrow> string" where
  "demoIdent req = ''10.0.0.1''"

definition demoClient :: client where
  "demoClient = newClient demoIdent demoConn demoRequest"

definition syncHandler :: handler where
  "syncHandler data c = (None, c\<lparr>synced := True\<rparr>)"

definition demoProtocol :: protocol where
  "demoProtocol = \<lparr>messageInvalid = 0, messageSynchronise = 30, messageResynchronise = 31,
                    handlers = [30 \<mapsto> syncHandler]\<rparr>"

text \<open>A request whose query holds the one parameter \<^verbatim>\<open>last\<close>, and one whose only header is Origin.\<close>

definition lastRequest :: "string \<Rightarrow> request" where
  "lastRequest v = \<lparr>Header = Map.empty, Query = [''last'' \<mapsto> [v]]\<rparr>"

definition originRequest :: "string \<Rightarrow> request" where
  "originRequest v = \<lparr>Header = [''Origin'' \<mapsto> [v]], Query = Map.empty\<rparr>"

text \<open>
  Stand-ins for the library functions that are parameters of the model, used to
  instantiate the theorems: a URL parser that knows the scheme \<^verbatim>\<open>http://\<close> only, a
  handshake that always succeeds, a fixed error text, a JSON encoder of
  strings that only adds the quotes, and a write outcome that is always a failure.
\<close>

definition demoParse :: "string \<Rightarrow> error + url" where
  "demoParse s = (if take 7 s = ''http://'' then Inr \<lparr>Host = drop 7 s\<rparr>
                  else Inl (ExternalError ''parse: missing scheme''))"

definition noPrecheck :: "request \<Rightarrow> error option" where
  "noPrecheck req = None"

definition completeHandshake :: "request \<Rightarrow> error + wsconn" where
  "completeHandshake req = Inr demoConn"

definition demoText :: "error \<Rightarrow> string" where
  "demoText e = ''error''"

definition quoted :: "string \<Rightarrow> bytes" where
  "quoted s = CHR 0x22 # s @ [CHR 0x22]"

definition demoMarshal :: "string \<Rightarrow> error + bytes" where
  "demoMarshal s = Inr (quoted s)"

definition failingWrites :: "nat \<Rightarrow> error option" where
  "failingWrites n = Some (ExternalError ''broken pipe'')"

text \<open>The same client with another outcome of its writes.\<close>

definition withWriteResult :: "(nat \<Rightarrow> error option) \<Rightarrow> client \<Rightarrow> client" where
  "withWriteResult wr c = c\<lparr>conn := (conn c)\<lparr>writeResult := wr\<rparr>\<rparr>"

text \<open>A store write that succeeds, and a client with the post 7 open since the epoch.\<close>

definition flushOk :: "openPost \<Rightarrow> error option" where
  "flushOk post = None"

definition postClient :: client where
  "postClient = demoClient\<lparr>openPost := noPost\<lparr>post_id := 7, post_op := 1, post_time := 0\<rparr>\<rparr>"

text \<open>
  Modelled from the spec: \<^verbatim>\<open>db.All\<close> and the database behind it are missing from the
  modelled files. Over the thread store of the spec the query of \<^verbatim>\<open>serveBacklog\<close> yields
  the range and does not fail (\<open>dbStore\<close>); \<open>dbDown\<close> is a database that cannot be
  reached.
\<close>

definition dbStore :: "(nat \<rightharpoonup> bytes list) \<Rightarrow> nat \<Rightarrow> nat \<Rightarrow> nat \<Rightarrow> error + bytes list" where
  "dbStore store thread start end' = Inr (rangeLog store thread start end')"

definition dbDown :: "nat \<Rightarrow> nat \<Rightarrow> nat \<Rightarrow> error + bytes list" where
  "dbDown thread start end' = Inl (ExternalError ''connection refused'')"

text \<open>
  A store with three frames in the log of thread 10, a stand-in for the content hash, the
  route parameters of a backlog request and a response writer nothing was written to.
\<close>

definition demoStore :: "nat \<rightharpoonup> bytes list" where
  "demoStore = [10 \<mapsto> [''05a'', ''05b'', ''05c'']]"

definition demoHash :: "bytes \<Rightarrow> string" where
  "demoHash b = FormatUint (length b)"

definition demoParams :: "string \<Rightarrow> string \<Rightarrow> string \<Rightarrow> (string \<rightharpoonup> string)" where
  "demoParams t s e = [''thread'' \<mapsto> t, ''start'' \<mapsto> s, ''end'' \<mapsto> e]"

definition emptyWriter :: responseWriter where
  "emptyWriter = \<lparr>RespHeader = Map.empty, out = Unwritten\<rparr>"

text \<open>
  The outcome of a teardown, used to state what \<^verbatim>\<open>closeConnections\<close> returns: the close
  frame with a given code (its deadline is one second after \<open>now\<close>), the client once its
  channels and its socket are closed and \<open>frames\<close> were handed to the connection, the
  error returned (wrapped if closing the socket failed), and the frames of the
  invalid-message notice for an error (none if the notice cannot be encoded).
\<close>

definition closeFrame :: "int \<Rightarrow> int \<Rightarrow> wsframe" where
  "closeFrame code now = Control CloseMessage (FormatCloseMessage code []) (now + 1000000000)"

definition afterTeardown :: "client \<Rightarrow> error option \<Rightarrow> wsframe list \<Rightarrow> client" where
  "afterTeardown c e frames =
     c\<lparr>closeUpdateFeed := (if closeUpdateFeed c = ChanNil then ChanNil else ChanClosed),
       close := (if e \<noteq> None then ChanClosed else close c),
       write' := ChanClosed,
       conn := (conn c)\<lparr>sent := sent (conn c) @ frames, closed := True\<rparr>\<rparr>"

definition returnedError :: "(error \<Rightarrow> string) \<Rightarrow> client \<Rightarrow> error option \<Rightarrow> error option" where
  "returnedError ext c e =
     (case closeResult (conn c) of Some ce \<Rightarrow> Some (WrapError (Error ext ce) e) | None \<Rightarrow> e)"

definition noticeFrames ::
  "protocol \<Rightarrow> (error \<Rightarrow> string) \<Rightarrow> (string \<Rightarrow> error + bytes) \<Rightarrow> error \<Rightarrow> wsframe list" where
  "noticeFrames P ext marshal x =
     (case encodeMessage marshal (messageInvalid P) (Error ext x) of
        Inl me \<Rightarrow> []
      | Inr frame \<Rightarrow> [Message TextMessage frame])"

section \<open>Facts about the decimal conversions\<close>

lemma digits_nth:
  assumes "n < 10"
  shows "isDigit (digits ! n) \<and> digitVal (digits ! n) = n"
proof -
  from assms have "n \<in> {0, 1, 2, 3, 4, 5, 6, 7, 8, 9}" by auto
  then show ?thesis
    by (auto simp: digits_def isDigit_def digitVal_def)
qed

lemma FormatUint_small: "n < 10 \<Longrightarrow> FormatUint n = [digits ! n]"
  by (simp add: FormatUint.simps)

lemma FormatUint_two:
  assumes "10 \<le> n" and "n \<le> 99"
  shows "FormatUint n = [digits ! (n div 10), digits ! (n mod 10)]"
proof -
  from assms have "n div 10 < 10" by simp
  then have "FormatUint (n div 10) = [digits ! (n div 10)]" by (rule FormatUint_small)
  with assms show ?thesis by (subst FormatUint.simps) simp
qed

lemma ParseUint_two_digits:
  assumes "a < 10" and "b < 10"
  shows "ParseUint [digits ! a, digits ! b] 8 = Inr (a * 10 + b)"
proof -
  have da: "isDigit (digits ! a)" "digitVal (digits ! a) = a"
    using digits_nth [OF assms(1)] by simp_all
  have db: "isDigit (digits ! b)" "digitVal (digits ! b) = b"
    using digits_nth [OF assms(2)] by simp_all
  from assms have "a * 10 + b \<le> 255" by simp
  with assms da db show ?thesis by (simp add: ParseUint_def)
qed

lemma frame_tag:
  assumes "n \<le> 99"
  shows "(let ts = FormatUint n; enc = replicate (length d + 2) (CHR 0x00);
              enc' = (if length ts = 1 then enc[0 := CHR ''0'', 1 := ts ! 0] else copy enc ts)
          in take 2 enc' @ copy (drop 2 enc') d)
         = [digits ! (n div 10), digits ! (n mod 10)] @ d"
proof (cases "n < 10")
  case True
  then have "FormatUint n = [digits ! n]" by (rule FormatUint_small)
  moreover have "digits ! 0 = CHR ''0''" by (simp add: digits_def)
  ultimately show ?thesis using True by (simp add: copy_def Let_def)
next
  case False
  with assms have "FormatUint n = [digits ! (n div 10), digits ! (n mod 10)]"
    by (simp add: FormatUint_two)
  then show ?thesis by (simp add: copy_def Let_def)
qed





lemma parseUintLoop_append:
  "parseUintLoop M a (xs @ ys) =
     (case parseUintLoop M a xs of Inl e \<Rightarrow> Inl e | Inr v \<Rightarrow> parseUintLoop M v ys)"
  by (induction xs arbitrary: a) simp_all

lemma parseUintLoop_FormatUint: "n \<le> M \<Longrightarrow> parseUintLoop M 0 (FormatUint n) = Inr n"
proof (induction n rule: FormatUint.induct)
  case (1 n)
  show ?case
  proof (cases "n < 10")
    case True
    with 1 digits_nth [of n] show ?thesis by (simp add: FormatUint.simps [of n])
  next
    case False
    with 1 have ih: "parseUintLoop M 0 (FormatUint (n div 10)) = Inr (n div 10)" by simp
    have d: "isDigit (digits ! (n mod 10))" "digitVal (digits ! (n mod 10)) = n mod 10"
      using digits_nth [of "n mod 10"] by simp_all
    have "n div 10 * 10 + n mod 10 = n" by simp
    with False ih d 1(2) show ?thesis
      by (simp add: FormatUint.simps [of n] parseUintLoop_append)
  qed
qed

lemma FormatUint_nonempty: "FormatUint n \<noteq> []"
  by (simp add: FormatUint.simps [of n])

lemma hd_FormatUint_digit: "isDigit (hd (FormatUint n))"
proof (induction n rule: FormatUint.induct)
  case (1 n)
  show ?case
  proof (cases "n < 10")
    case True
    with digits_nth [of n] show ?thesis by (simp add: FormatUint.simps [of n])
  next
    case False
    with 1 FormatUint_nonempty [of "n div 10"] show ?thesis
      by (simp add: FormatUint.simps [of n])
  qed
qed

lemma isDigit_not_sign: "isDigit ch \<Longrightarrow> ch \<noteq> CHR ''-'' \<and> ch \<noteq> CHR ''+''"
  by (auto simp: isDigit_def)

lemma Atoi_FormatUint:
  assumes "n < 2 ^ 63"
  shows "Atoi (FormatUint n) = Inr (int n)"
proof -
  have s: "hd (FormatUint n) \<noteq> CHR ''-''" "hd (FormatUint n) \<noteq> CHR ''+''"
    using isDigit_not_sign [OF hd_FormatUint_digit [of n]] by simp_all
  from assms have "n \<le> 2 ^ 64 - 1" by simp
  then have "parseUintLoop (2 ^ 64 - 1) 0 (FormatUint n) = Inr n"
    by (rule parseUintLoop_FormatUint)
  with s assms FormatUint_nonempty [of n] show ?thesis
    by (simp add: Atoi_def Let_def)
qed

lemma Atoi_minus_FormatUint:
  assumes "n \<le> 2 ^ 63"
  shows "Atoi (CHR ''-'' # FormatUint n) = Inr (- int n)"
proof -
  from assms have "n \<le> 2 ^ 64 - 1" by simp
  then have "parseUintLoop (2 ^ 64 - 1) 0 (FormatUint n) = Inr n"
    by (rule parseUintLoop_FormatUint)
  with assms FormatUint_nonempty [of n] show ?thesis
    by (simp add: Atoi_def Let_def)
qed

lemma Atoi_empty: "Atoi [] = Inl (NumError ''Atoi'' [] ErrSyntax)"
  by (simp add: Atoi_def)

lemma FormatUint_30: "FormatUint 30 = ''30''"
  by (simp add: FormatUint.simps [of 30] FormatUint.simps [of 3] digits_def)

section \<open>Facts about the teardown\<close>

lemma closeConnections_chans:
  assumes "write' c = ChanOpen" and "closeUpdateFeed c \<noteq> ChanClosed"
    and "e \<noteq> None \<longrightarrow> close c = ChanOpen"
  shows "close_chan (write' c) = Inr ChanClosed"
    and "closeUpdateFeed c \<noteq> ChanNil \<Longrightarrow> close_chan (closeUpdateFeed c) = Inr ChanClosed"
    and "e = Some y \<Longrightarrow> close_chan (close c) = Inr ChanClosed"
  using assms by (cases "closeUpdateFeed c"; simp)+

lemma closeConnections_normal:
  assumes "write' c = ChanOpen" and "closeUpdateFeed c \<noteq> ChanClosed"
    and "e \<noteq> None \<longrightarrow> close c = ChanOpen"
    and "e = None \<or> e = Some (CloseError CloseNormalClosure why)
           \<or> e = Some (CloseError CloseGoingAway why)"
  shows "closeConnections P ext marshal now c e
           = Inr (returnedError ext c None,
                  afterTeardown c e [closeFrame CloseNormalClosure now])"
  using assms(4) closeConnections_chans [OF assms(1-3)]
  by (cases "closeUpdateFeed c = ChanNil")
    (auto simp: closeConnections_def Let_def WriteControl_def connClose_def
      returnedError_def afterTeardown_def closeFrame_def split: option.splits)

lemma closeConnections_other:
  assumes "write' c = ChanOpen" and "closeUpdateFeed c \<noteq> ChanClosed"
    and "close c = ChanOpen"
    and "\<forall>code reason. x \<noteq> CloseError code reason"
  shows "closeConnections P ext marshal now c (Some x)
           = Inr (returnedError ext c (Some x),
                  afterTeardown c (Some x)
                    (noticeFrames P ext marshal x @ [closeFrame CloseInvalidFramePayloadData now]))"
proof -
  have "Some x \<noteq> None \<longrightarrow> close c = ChanOpen" using assms(3) by simp
  note ch = closeConnections_chans [OF assms(1,2) this]
  from assms(4) show ?thesis
    by (cases x; cases "encodeMessage marshal (messageInvalid P) (Error ext x)";
        cases "closeUpdateFeed c = ChanNil")
      (simp_all add: closeConnections_def ch Let_def WriteControl_def connClose_def
        returnedError_def afterTeardown_def closeFrame_def sendMessage_def send_def
        WriteMessage_def noticeFrames_def split: option.splits)
qed

lemma withWriteResult_fields:
  "write' (withWriteResult wr c) = write' c"
  "closeUpdateFeed (withWriteResult wr c) = closeUpdateFeed c"
  "close (withWriteResult wr c) = close c"
  "returnedError ext (withWriteResult wr c) e = returnedError ext c e"
  "afterTeardown (withWriteResult wr c) e frames = withWriteResult wr (afterTeardown c e frames)"
  by (simp_all add: withWriteResult_def returnedError_def afterTeardown_def)




section \<open>The message codec and the dispatch of frames\<close>

text \<open>
  Claim C1. For a message type from 0 to 99 and a payload that \<^verbatim>\<open>json.Marshal\<close> accepts,
  \<^verbatim>\<open>encodeMessage\<close> returns a frame of two more bytes than the serialised payload; reading
  its first two bytes as \<^verbatim>\<open>handleMessage\<close> does (\<^verbatim>\<open>ParseUint\<close> with base 10 and 8 bits,
  then the conversion to \<^verbatim>\<open>messageType\<close>) gives the type back, the remaining bytes are
  the serialised payload, and \<^verbatim>\<open>handleMessage\<close> hands exactly that payload to the handler
  registered for exactly that type.
\<close>

theorem encodeMessage_roundtrip:
  assumes "unat t \<le> 99" and "marshal m = Inr data"
  shows "\<exists>frame. encodeMessage marshal t m = Inr frame
           \<and> length frame = length data + 2
           \<and> ParseUint (take 2 frame) 8 = Inr (unat t)
           \<and> (of_nat (unat t) :: messageType) = t
           \<and> drop 2 frame = data
           \<and> (synced c \<or> t = messageSynchronise P \<or> t = messageResynchronise P \<longrightarrow>
                handlers P t = Some h \<longrightarrow>
                handleMessage P c TextMessage frame = Inr (h data c))"
proof -
  define frame where "frame = [digits ! (unat t div 10), digits ! (unat t mod 10)] @ data"
  have enc: "encodeMessage marshal t m = Inr frame"
    using frame_tag [OF assms(1), of data] assms(2)
    by (simp add: encodeMessage_def frame_def Let_def)
  have len: "length frame = length data + 2" and dr: "drop 2 frame = data"
    and tk: "take 2 frame = [digits ! (unat t div 10), digits ! (unat t mod 10)]"
    by (simp_all add: frame_def)
  have "unat t div 10 < 10" and "unat t mod 10 < 10" using assms(1) by simp_all
  then have "ParseUint [digits ! (unat t div 10), digits ! (unat t mod 10)] 8
               = Inr (unat t div 10 * 10 + unat t mod 10)"
    by (rule ParseUint_two_digits)
  then have parse: "ParseUint (take 2 frame) 8 = Inr (unat t)" by (simp add: tk)
  have cast: "(of_nat (unat t) :: messageType) = t" by simp
  have run: "handleMessage P c TextMessage frame = Inr (h data c)"
    if "synced c \<or> t = messageSynchronise P \<or> t = messageResynchronise P"
      and "handlers P t = Some h"
    using that parse len dr by (auto simp: handleMessage_def runHandler_def Let_def)
  from enc len parse cast dr run show ?thesis by blast
qed

theorem encodeMessage_roundtrip_witness:
  "unat (30 :: messageType) \<le> 99
   \<and> demoMarshal ''ok'' = Inr (quoted ''ok'')
   \<and> encodeMessage demoMarshal 30 ''ok'' = Inr (''30'' @ quoted ''ok'')
   \<and> ParseUint (take 2 (''30'' @ quoted ''ok'')) 8 = Inr 30
   \<and> drop 2 (''30'' @ quoted ''ok'') = quoted ''ok''
   \<and> handleMessage demoProtocol demoClient TextMessage (''30'' @ quoted ''ok'')
        = Inr (syncHandler (quoted ''ok'') demoClient)"
proof -
  have t: "unat (30 :: messageType) \<le> 99" by simp
  have m: "demoMarshal ''ok'' = Inr (quoted ''ok'')" by (simp add: demoMarshal_def)
  have enc: "encodeMessage demoMarshal 30 ''ok'' = Inr (''30'' @ quoted ''ok'')"
    by (simp add: encodeMessage_def demoMarshal_def FormatUint_30 copy_def)
  have p: "30 = messageSynchronise demoProtocol" by (simp add: demoProtocol_def)
  have h: "handlers demoProtocol 30 = Some syncHandler" by (simp add: demoProtocol_def)
  from encodeMessage_roundtrip [where t = 30 and marshal = demoMarshal and m = "''ok''"
      and data = "quoted ''ok''" and c = demoClient and P = demoProtocol and h = syncHandler,
      OF t m] enc p h
  have "ParseUint (take 2 (''30'' @ quoted ''ok'')) 8 = Inr 30
     \<and> drop 2 (''30'' @ quoted ''ok'') = quoted ''ok''
     \<and> handleMessage demoProtocol demoClient TextMessage (''30'' @ quoted ''ok'')
          = Inr (syncHandler (quoted ''ok'') demoClient)"
    by auto
  with t m enc show ?thesis by simp
qed







section \<open>Closing a client\<close>

lemma Close_closed: "close c = ChanClosed \<Longrightarrow> Close c = Inr c"
  by (simp add: Close_def)

lemma Close_result_closed: "Close c = Inr c' \<Longrightarrow> close c' = ChanClosed"
  by (cases "close c") (auto simp: Close_def)

lemma CloseN_closed: "close c = ChanClosed \<Longrightarrow> CloseN n c = Inr c"
  by (induction n) (simp_all add: Close_closed)

text \<open>
  Claim C9. \<^verbatim>\<open>Close\<close> on a client whose close channel is already closed returns the
  client unchanged and does not panic; on an open channel it closes it; and any positive
  number of calls in a row gives the result of a single call.
\<close>

theorem Close_idempotent:
  "(close c = ChanClosed \<longrightarrow> Close c = Inr c)
   \<and> (close c = ChanOpen \<longrightarrow> Close c = Inr (c\<lparr>close := ChanClosed\<rparr>))
   \<and> CloseN (Suc n) c = Close c"
proof -
  have "CloseN (Suc n) c = Close c"
  proof (cases "Close c")
    case (Inl p)
    then show ?thesis by simp
  next
    case (Inr c')
    then have "close c' = ChanClosed" by (rule Close_result_closed)
    then have "CloseN n c' = Inr c'" by (rule CloseN_closed)
    with Inr show ?thesis by simp
  qed
  then show ?thesis by (simp add: Close_def)
qed

theorem Close_idempotent_witness:
  "close (demoClient\<lparr>close := ChanClosed\<rparr>) = ChanClosed
   \<and> Close (demoClient\<lparr>close := ChanClosed\<rparr>) = Inr (demoClient\<lparr>close := ChanClosed\<rparr>)
   \<and> close demoClient = ChanOpen
   \<and> Close demoClient = Inr (demoClient\<lparr>close := ChanClosed\<rparr>)
   \<and> CloseN 3 demoClient = Inr (demoClient\<lparr>close := ChanClosed\<rparr>)"
proof -
  have o: "close demoClient = ChanOpen" by (simp add: demoClient_def newClient_def)
  have one: "Close demoClient = Inr (demoClient\<lparr>close := ChanClosed\<rparr>)"
    using Close_idempotent [of demoClient 0] o by simp
  have "CloseN (Suc 2) demoClient = Close demoClient"
    using Close_idempotent [of demoClient 2] by simp
  with one have three: "CloseN 3 demoClient = Inr (demoClient\<lparr>close := ChanClosed\<rparr>)"
    by (simp add: numeral_3_eq_3)
  have again: "Close (demoClient\<lparr>close := ChanClosed\<rparr>) = Inr (demoClient\<lparr>close := ChanClosed\<rparr>)"
    using Close_idempotent [of "demoClient\<lparr>close := ChanClosed\<rparr>" 0] by simp
  from o one three again show ?thesis by simp
qed

section \<open>The last-N setting\<close>

text \<open>
  Claim C10. \<^verbatim>\<open>detectLastN\<close> is 0 when the parameter \<^verbatim>\<open>last\<close> is absent; it is the
  parsed value when \<^verbatim>\<open>Atoi\<close> accepts the parameter and the value is at most 500; it is 0
  when the value is above 500 or \<^verbatim>\<open>Atoi\<close> rejects the parameter. In particular the decimal
  digits of a number up to 500 give that number, and a minus sign before the decimal digits
  of a number gives its negation: zero and negative values are returned as they are.
\<close>

theorem detectLastN_value:
  "(Query req ''last'' = None \<longrightarrow> detectLastN req = 0)
   \<and> (Atoi (Get (Query req) ''last'') = Inr n \<and> n \<le> 500 \<longrightarrow> detectLastN req = n)
   \<and> (Atoi (Get (Query req) ''last'') = Inr n \<and> 500 < n \<longrightarrow> detectLastN req = 0)
   \<and> (Atoi (Get (Query req) ''last'') = Inl e \<longrightarrow> detectLastN req = 0)
   \<and> (Get (Query req) ''last'' = FormatUint k \<and> k \<le> 500 \<longrightarrow> detectLastN req = int k)
   \<and> (Get (Query req) ''last'' = CHR ''-'' # FormatUint k \<and> k \<le> 2 ^ 63 \<longrightarrow>
        detectLastN req = - int k)"
proof -
  have absent: "detectLastN req = 0" if "Query req ''last'' = None"
    using that by (simp add: detectLastN_def Get_def)
  have ok: "detectLastN req = n" if "Atoi (Get (Query req) ''last'') = Inr n" and "n \<le> 500"
    using that by (auto simp: detectLastN_def Let_def Atoi_empty)
  have big: "detectLastN req = 0" if "Atoi (Get (Query req) ''last'') = Inr n" and "500 < n"
    using that by (auto simp: detectLastN_def Let_def)
  have bad: "detectLastN req = 0" if "Atoi (Get (Query req) ''last'') = Inl e"
    using that by (auto simp: detectLastN_def Let_def)
  have pos: "detectLastN req = int k" if "Get (Query req) ''last'' = FormatUint k" and "k \<le> 500"
  proof -
    from that(2) have "k < 2 ^ 63" by simp
    then have "Atoi (FormatUint k) = Inr (int k)" by (rule Atoi_FormatUint)
    with that FormatUint_nonempty [of k] show ?thesis
      by (simp add: detectLastN_def Let_def)
  qed
  have neg: "detectLastN req = - int k"
    if "Get (Query req) ''last'' = CHR ''-'' # FormatUint k" and "k \<le> 2 ^ 63"
  proof -
    from that(2) have "Atoi (CHR ''-'' # FormatUint k) = Inr (- int k)"
      by (rule Atoi_minus_FormatUint)
    with that show ?thesis by (simp add: detectLastN_def Let_def)
  qed
  from absent ok big bad pos neg show ?thesis by blast
qed

theorem detectLastN_value_witness:
  "Get (Query (lastRequest ''-5'')) ''last'' = CHR ''-'' # FormatUint 5
   \<and> detectLastN (lastRequest ''-5'') = - 5
   \<and> Get (Query (lastRequest ''500'')) ''last'' = FormatUint 500
   \<and> detectLastN (lastRequest ''500'') = 500
   \<and> Atoi (Get (Query (lastRequest ''501'')) ''last'') = Inr 501
   \<and> detectLastN (lastRequest ''501'') = 0
   \<and> Atoi (Get (Query (lastRequest ''abc'')) ''last'') = Inl (NumError ''Atoi'' ''abc'' ErrSyntax)
   \<and> detectLastN (lastRequest ''abc'') = 0
   \<and> Query demoRequest ''last'' = None
   \<and> detectLastN demoRequest = 0"
proof -
  have f5: "FormatUint 5 = ''5''"
    by (simp add: FormatUint.simps [of 5] digits_def)
  have f500: "FormatUint 500 = ''500''"
    by (simp add: FormatUint.simps [of 500] FormatUint.simps [of 50] FormatUint.simps [of 5]
        digits_def)
  have a501: "Atoi ''501'' = Inr 501"
    by (simp add: Atoi_def isDigit_def digitVal_def)
  have abc: "Atoi ''abc'' = Inl (NumError ''Atoi'' ''abc'' ErrSyntax)"
    by (simp add: Atoi_def isDigit_def digitVal_def)
  have g: "Get (Query (lastRequest v)) ''last'' = v" for v
    by (simp add: lastRequest_def Get_def)
  have "detectLastN (lastRequest ''-5'') = - 5"
    using detectLastN_value [where req = "lastRequest ''-5''" and k = 5] f5 g by simp
  moreover have "detectLastN (lastRequest ''500'') = 500"
    using detectLastN_value [where req = "lastRequest ''500''" and k = 500] f500 g by simp
  moreover have "detectLastN (lastRequest ''501'') = 0"
    using detectLastN_value [where req = "lastRequest ''501''" and n = 501] a501 g by simp
  moreover have "detectLastN (lastRequest ''abc'') = 0"
    using detectLastN_value [where req = "lastRequest ''abc''"
        and e = "NumError ''Atoi'' ''abc'' ErrSyntax"] abc g by simp
  moreover have "detectLastN demoRequest = 0"
    using detectLastN_value [where req = demoRequest] by (simp add: demoRequest_def)
  moreover have "Query demoRequest ''last'' = None" by (simp add: demoRequest_def)
  ultimately show ?thesis using f5 f500 a501 abc g by simp
qed

section \<open>The origin check\<close>

text \<open>
  Claim C6. \<^verbatim>\<open>CheckOrigin\<close> accepts a request exactly when its Origin header is empty or
  parses as a URL whose host is the allowed origin; when \<^verbatim>\<open>CheckOrigin\<close> rejects,
  \<^verbatim>\<open>Handler\<close> ends with the failed upgrade and creates no client.
\<close>

theorem CheckOrigin_accepts_iff:
  "(CheckOrigin Parse allowed req \<longleftrightarrow>
      Get (Header req) ''Origin'' = []
      \<or> (\<exists>u. Parse (Get (Header req) ''Origin'') = Inr u \<and> Host u = allowed))
   \<and> (\<not> CheckOrigin Parse allowed req \<longrightarrow>
        (\<exists>e. Handler P ext marshal before after Parse allowed LookUpIdent now req evs
               = UpgradeFailed e))"
proof -
  have iff: "CheckOrigin Parse allowed req \<longleftrightarrow>
      Get (Header req) ''Origin'' = []
      \<or> (\<exists>u. Parse (Get (Header req) ''Origin'') = Inr u \<and> Host u = allowed)"
    by (auto simp: CheckOrigin_def Let_def split: sum.splits)
  have rej: "\<exists>e. Handler P ext marshal before after Parse allowed LookUpIdent now req evs
               = UpgradeFailed e" if "\<not> CheckOrigin Parse allowed req"
    using that by (cases "before req") (simp_all add: Handler_def Upgrade_def)
  from iff rej show ?thesis by blast
qed

theorem CheckOrigin_accepts_iff_witness:
  "Get (Header demoRequest) ''Origin'' = []
   \<and> CheckOrigin demoParse ''example.com'' demoRequest
   \<and> demoParse (Get (Header (originRequest ''http://example.com'')) ''Origin'')
       = Inr \<lparr>Host = ''example.com''\<rparr>
   \<and> CheckOrigin demoParse ''example.com'' (originRequest ''http://example.com'')
   \<and> \<not> CheckOrigin demoParse ''example.com'' (originRequest ''http://evil.org'')
   \<and> \<not> CheckOrigin demoParse ''example.com'' (originRequest ''example.com'')
   \<and> Handler demoProtocol demoText demoMarshal noPrecheck completeHandshake demoParse
        ''example.com'' demoIdent 0 (originRequest ''http://evil.org'') []
      = UpgradeFailed (ExternalError ''websocket: origin not allowed'')"
proof -
  have g: "Get (Header (originRequest v)) ''Origin'' = v" for v
    by (simp add: originRequest_def Get_def)
  have g0: "Get (Header demoRequest) ''Origin'' = []"
    by (simp add: demoRequest_def Get_def)
  have a: "CheckOrigin demoParse ''example.com'' demoRequest"
    using CheckOrigin_accepts_iff [where Parse = demoParse and allowed = "''example.com''"
        and req = demoRequest] g0 by simp
  have b: "CheckOrigin demoParse ''example.com'' (originRequest ''http://example.com'')"
    using CheckOrigin_accepts_iff [where Parse = demoParse and allowed = "''example.com''"
        and req = "originRequest ''http://example.com''"] g
    by (simp add: demoParse_def)
  have c: "\<not> CheckOrigin demoParse ''example.com'' (originRequest ''http://evil.org'')"
    using CheckOrigin_accepts_iff [where Parse = demoParse and allowed = "''example.com''"
        and req = "originRequest ''http://evil.org''"] g
    by (simp add: demoParse_def)
  have d: "\<not> CheckOrigin demoParse ''example.com'' (originRequest ''example.com'')"
    using CheckOrigin_accepts_iff [where Parse = demoParse and allowed = "''example.com''"
        and req = "originRequest ''example.com''"] g
    by (simp add: demoParse_def)
  have e: "Handler demoProtocol demoText demoMarshal noPrecheck completeHandshake demoParse
        ''example.com'' demoIdent 0 (originRequest ''http://evil.org'') []
      = UpgradeFailed (ExternalError ''websocket: origin not allowed'')"
    using c by (simp add: Handler_def Upgrade_def noPrecheck_def)
  have f: "demoParse (Get (Header (originRequest ''http://example.com'')) ''Origin'')
       = Inr \<lparr>Host = ''example.com''\<rparr>"
    by (simp add: g demoParse_def)
  from a b c d e f g0 show ?thesis by simp
qed

section \<open>Access to the open post\<close>

text \<open>
  Claim C3 as stated fails: on a post that is open and older than 29 minutes, with a close
  that succeeds, \<^verbatim>\<open>hasPost\<close> returns false and no error at all.
\<close>

theorem hasPost_expired_counterexample:
  "post_id (openPost postClient) \<noteq> 0
   \<and> post_time (openPost postClient) < (1800000000000 - 29 * 60 * 1000000000) div 1000000000
   \<and> hasPost (closePost flushOk) 1800000000000 postClient
        = ((False, None), postClient\<lparr>openPost := noPost\<rparr>)"
  by (simp add: hasPost_def closePost_def flushOk_def postClient_def noPost_def)

text \<open>
  Claim C3, amended. \<^verbatim>\<open>hasPost\<close> fails with \<^verbatim>\<open>errNoPostOpen\<close> when the post id is zero.
  When a post is open and its time lies more than 29 minutes before the time of the access,
  \<^verbatim>\<open>hasPost\<close> returns false, calls \<^verbatim>\<open>closePost\<close> and returns the error of that call and
  the client as that call left it; where the close succeeds there is no error, the post is
  cleared, and every later access fails with \<^verbatim>\<open>errNoPostOpen\<close>. Otherwise the post is
  available. The age is compared with the clock value passed to the access.
\<close>

theorem hasPost_access_check:
  "(post_id (openPost c) = 0 \<longrightarrow> hasPost cp now c = ((False, Some errNoPostOpen), c))
   \<and> (post_id (openPost c) \<noteq> 0
        \<and> post_time (openPost c) < (now - 29 * 60 * 1000000000) div 1000000000 \<longrightarrow>
          hasPost cp now c = ((False, fst (cp [] c)), snd (cp [] c)))
   \<and> (post_id (openPost c) \<noteq> 0
        \<and> post_time (openPost c) < (now - 29 * 60 * 1000000000) div 1000000000
        \<and> flush (openPost c) = None \<longrightarrow>
          hasPost (closePost flush) now c = ((False, None), c\<lparr>openPost := noPost\<rparr>)
          \<and> hasPost (closePost flush) now' (c\<lparr>openPost := noPost\<rparr>)
              = ((False, Some errNoPostOpen), c\<lparr>openPost := noPost\<rparr>))
   \<and> (post_id (openPost c) \<noteq> 0
        \<and> \<not> post_time (openPost c) < (now - 29 * 60 * 1000000000) div 1000000000 \<longrightarrow>
          hasPost cp now c = ((True, None), c))"
proof -
  let ?old = "post_time (openPost c) < (now - 29 * 60 * 1000000000) div 1000000000"
  have none: "hasPost cp now c = ((False, Some errNoPostOpen), c)"
    if "post_id (openPost c) = 0"
    using that by (simp add: hasPost_def)
  have expired: "hasPost cp now c = ((False, fst (cp [] c)), snd (cp [] c))"
    if "post_id (openPost c) \<noteq> 0" and "?old" for cp
    using that by (simp add: hasPost_def split: prod.splits)
  have closed: "closePost flush [] c = (None, c\<lparr>openPost := noPost\<rparr>)"
    if "post_id (openPost c) \<noteq> 0" and "flush (openPost c) = None"
    using that by (simp add: closePost_def)
  have cleared: "post_id (openPost (c\<lparr>openPost := noPost\<rparr>)) = 0"
    by (simp add: noPost_def)
  have later: "hasPost (closePost flush) now' (c\<lparr>openPost := noPost\<rparr>)
                 = ((False, Some errNoPostOpen), c\<lparr>openPost := noPost\<rparr>)"
    using cleared by (simp add: hasPost_def)
  have fresh: "hasPost cp now c = ((True, None), c)"
    if "post_id (openPost c) \<noteq> 0" and "\<not> ?old"
    using that by (simp add: hasPost_def)
  from none expired [of cp] expired [of "closePost flush"] closed later fresh
  show ?thesis by simp
qed

theorem hasPost_access_check_witness:
  "post_id (openPost demoClient) = 0
   \<and> hasPost (closePost flushOk) 1800000000000 demoClient
     = ((False, Some errNoPostOpen), demoClient)
   \<and> post_id (openPost postClient) \<noteq> 0
   \<and> post_time (openPost postClient) < (1800000000000 - 29 * 60 * 1000000000) div 1000000000
   \<and> flushOk (openPost postClient) = None
   \<and> \<not> post_time (openPost postClient) < (1740000000000 - 29 * 60 * 1000000000) div 1000000000
   \<and> hasPost (closePost flushOk) 1800000000000 postClient
     = ((False, None), postClient\<lparr>openPost := noPost\<rparr>)
   \<and> hasPost (closePost flushOk) 1800000000001 (postClient\<lparr>openPost := noPost\<rparr>)
     = ((False, Some errNoPostOpen), postClient\<lparr>openPost := noPost\<rparr>)
   \<and> hasPost (closePost flushOk) 1740000000000 postClient = ((True, None), postClient)"
proof -
  have a: "hasPost (closePost flushOk) 1800000000000 demoClient
     = ((False, Some errNoPostOpen), demoClient)"
    using hasPost_access_check [where c = demoClient and cp = "closePost flushOk"
        and now = 1800000000000]
    by (simp add: demoClient_def newClient_def noPost_def)
  have b: "hasPost (closePost flushOk) 1800000000000 postClient
     = ((False, None), postClient\<lparr>openPost := noPost\<rparr>)
   \<and> hasPost (closePost flushOk) 1800000000001 (postClient\<lparr>openPost := noPost\<rparr>)
     = ((False, Some errNoPostOpen), postClient\<lparr>openPost := noPost\<rparr>)"
    using hasPost_access_check [where c = postClient and flush = flushOk
        and cp = "closePost flushOk" and now = 1800000000000 and now' = 1800000000001]
    by (simp add: postClient_def noPost_def flushOk_def closePost_def)
  have c: "hasPost (closePost flushOk) 1740000000000 postClient = ((True, None), postClient)"
    using hasPost_access_check [where c = postClient and cp = "closePost flushOk"
        and now = 1740000000000]
    by (simp add: postClient_def noPost_def)
  have pre: "post_id (openPost demoClient) = 0" "post_id (openPost postClient) \<noteq> 0"
    "post_time (openPost postClient) < (1800000000000 - 29 * 60 * 1000000000) div 1000000000"
    "flushOk (openPost postClient) = None"
    "\<not> post_time (openPost postClient) < (1740000000000 - 29 * 60 * 1000000000) div 1000000000"
    by (simp_all add: demoClient_def newClient_def postClient_def noPost_def flushOk_def)
  from a b c pre show ?thesis by simp
qed

section \<open>The backlog\<close>

lemma parseArgs_all:
  assumes "ParseUint (param p ''thread'') 64 = Inr t"
    and "ParseUint (param p ''start'') 64 = Inr s"
    and "ParseUint (param p ''end'') 64 = Inr e"
  shows "parseArgs p [0, 0, 0] 0 [''thread'', ''start'', ''end''] = Inr [t, s, e]"
  using assms by simp

lemma parseArgs_fail:
  assumes "ParseUint (param p ''thread'') 64 = Inl x1
           \<or> ParseUint (param p ''start'') 64 = Inl x2
           \<or> ParseUint (param p ''end'') 64 = Inl x3"
  shows "\<exists>x. parseArgs p [0, 0, 0] 0 [''thread'', ''start'', ''end''] = Inl x"
  using assms by (auto split: sum.splits)

lemma rangeLog_indices:
  "rangeLog store t s e =
     (case store t of None \<Rightarrow> [] | Some frames \<Rightarrow> map ((!) frames) [s ..< min e (length frames)])"
proof (cases "store t")
  case None
  then show ?thesis by (simp add: rangeLog_def)
next
  case (Some frames)
  have "take (e - s) (drop s frames) = map ((!) frames) [s ..< min e (length frames)]"
  proof (rule nth_equalityI)
    show "length (take (e - s) (drop s frames))
            = length (map ((!) frames) [s ..< min e (length frames)])"
      by (auto simp: min_def)
  next
    fix i
    assume "i < length (take (e - s) (drop s frames))"
    then have "i < e - s" and "s + i < length frames" by auto
    then show "take (e - s) (drop s frames) ! i
                 = map ((!) frames) [s ..< min e (length frames)] ! i"
      by simp
  qed
  with Some show ?thesis by (simp add: rangeLog_def)
qed

lemma ParseUint_10: "ParseUint ''10'' 64 = Inr 10"
  by (simp add: ParseUint_def isDigit_def digitVal_def)

lemma ParseUint_11: "ParseUint ''11'' 64 = Inr 11"
  by (simp add: ParseUint_def isDigit_def digitVal_def)

lemma ParseUint_digit:
  "ParseUint ''1'' 64 = Inr 1" "ParseUint ''3'' 64 = Inr 3" "ParseUint ''7'' 64 = Inr 7"
  "ParseUint ''9'' 64 = Inr 9"
  by (simp_all add: ParseUint_def isDigit_def digitVal_def)

lemma ParseUint_x: "ParseUint ''x'' 64 = Inl (NumError ''ParseUint'' ''x'' ErrSyntax)"
  by (simp add: ParseUint_def isDigit_def)

lemma param_demoParams:
  "param (demoParams t s e) ''thread'' = t" "param (demoParams t s e) ''start'' = s"
  "param (demoParams t s e) ''end'' = e"
  by (simp_all add: param_def demoParams_def)

text \<open>
  Claim C7 as stated fails: with three parameters that parse and a database that cannot be
  reached, \<^verbatim>\<open>serveBacklog\<close> answers with the status 500 and not with the frames.
\<close>

theorem serveBacklog_db_failure_counterexample:
  "ParseUint (param (demoParams ''10'' ''1'' ''3'') ''thread'') 64 = Inr 10
   \<and> ParseUint (param (demoParams ''10'' ''1'' ''3'') ''start'') 64 = Inr 1
   \<and> ParseUint (param (demoParams ''10'' ''1'' ''3'') ''end'') 64 = Inr 3
   \<and> serveBacklog dbDown demoHash emptyWriter (demoParams ''10'' ''1'' ''3'')
        = emptyWriter\<lparr>out := TextError 500 (ExternalError ''connection refused'')\<rparr>"
  by (simp add: serveBacklog_def demoParams_def param_def ParseUint_def isDigit_def
      digitVal_def dbDown_def text500_def)

text \<open>
  Claim C7, amended. When the three parameters parse as unsigned 64-bit decimals: if the
  query succeeds, the body is the concatenation of the frames it returned and the ETag
  header is the hash of that body; if the query fails, the answer is the status 500 with
  the error. Over the thread store the body is the concatenation of the frames with index
  in \<open>[start, end)\<close>, and it is empty, with no error status, when the thread has no log,
  when \<open>end \<le> start\<close> and when \<open>start\<close> is beyond the log. When a parameter does not
  parse, the answer is the status 400.
\<close>

theorem serveBacklog_response:
  "(ParseUint (param p ''thread'') 64 = Inr t \<and> ParseUint (param p ''start'') 64 = Inr s
      \<and> ParseUint (param p ''end'') 64 = Inr e \<longrightarrow>
        (dbAll t s e = Inr log \<longrightarrow>
           out (serveBacklog dbAll H w p) = Written (concat log)
           \<and> RespHeader (serveBacklog dbAll H w p) ''ETag'' = Some [H (concat log)])
        \<and> (dbAll t s e = Inl x \<longrightarrow> serveBacklog dbAll H w p = w\<lparr>out := TextError 500 x\<rparr>)
        \<and> out (serveBacklog (dbStore store) H w p) = Written (concat (rangeLog store t s e))
        \<and> statusOf (out (serveBacklog (dbStore store) H w p)) = Some 200
        \<and> RespHeader (serveBacklog (dbStore store) H w p) ''ETag''
            = Some [H (concat (rangeLog store t s e))]
        \<and> (store t = None \<or> e \<le> s \<or> (\<exists>frames. store t = Some frames \<and> length frames \<le> s) \<longrightarrow>
             out (serveBacklog (dbStore store) H w p) = Written []))
   \<and> rangeLog store t s e =
       (case store t of
          None \<Rightarrow> []
        | Some frames \<Rightarrow> map ((!) frames) [s ..< min e (length frames)])
   \<and> (ParseUint (param p ''thread'') 64 = Inl x1 \<or> ParseUint (param p ''start'') 64 = Inl x2
        \<or> ParseUint (param p ''end'') 64 = Inl x3 \<longrightarrow>
          (\<exists>x. serveBacklog dbAll H w p = w\<lparr>out := TextError 400 x\<rparr>))"
proof -
  have ok: "out (serveBacklog dbAll H w p) = Written (concat log)
       \<and> RespHeader (serveBacklog dbAll H w p) ''ETag'' = Some [H (concat log)]"
    if "parseArgs p [0, 0, 0] 0 [''thread'', ''start'', ''end''] = Inr [t, s, e]"
      and "dbAll t s e = Inr log" for dbAll log
    using that
    by (simp add: serveBacklog_def ConcatMessages_def writeData_def SetHeader_def Let_def
        del: parseArgs.simps)
  have down: "serveBacklog dbAll H w p = w\<lparr>out := TextError 500 x\<rparr>"
    if "parseArgs p [0, 0, 0] 0 [''thread'', ''start'', ''end''] = Inr [t, s, e]"
      and "dbAll t s e = Inl x"
    using that by (simp add: serveBacklog_def text500_def del: parseArgs.simps)
  have empty: "rangeLog store t s e = []"
    if "store t = None \<or> e \<le> s \<or> (\<exists>frames. store t = Some frames \<and> length frames \<le> s)"
    using that by (auto simp: rangeLog_def split: option.splits)
  have bad: "\<exists>x. serveBacklog dbAll H w p = w\<lparr>out := TextError 400 x\<rparr>"
    if "ParseUint (param p ''thread'') 64 = Inl x1 \<or> ParseUint (param p ''start'') 64 = Inl x2
        \<or> ParseUint (param p ''end'') 64 = Inl x3"
  proof -
    from parseArgs_fail [OF that] obtain x
      where "parseArgs p [0, 0, 0] 0 [''thread'', ''start'', ''end''] = Inl x" ..
    then have "serveBacklog dbAll H w p = w\<lparr>out := TextError 400 x\<rparr>"
      by (simp add: serveBacklog_def text400_def del: parseArgs.simps)
    then show ?thesis ..
  qed
  have st: "dbStore store t s e = Inr (rangeLog store t s e)" by (simp add: dbStore_def)
  show ?thesis
    using ok [of dbAll] ok [of "dbStore store", OF _ st] down empty bad parseArgs_all [of p t s e]
      rangeLog_indices [of store t s e]
    by (auto simp del: parseArgs.simps)
qed

theorem serveBacklog_response_witness:
  "ParseUint (param (demoParams ''10'' ''1'' ''3'') ''thread'') 64 = Inr 10
   \<and> ParseUint (param (demoParams ''10'' ''1'' ''3'') ''start'') 64 = Inr 1
   \<and> ParseUint (param (demoParams ''10'' ''1'' ''3'') ''end'') 64 = Inr 3
   \<and> ParseUint (param (demoParams ''10'' ''x'' ''3'') ''start'') 64
       = Inl (NumError ''ParseUint'' ''x'' ErrSyntax)
   \<and> out (serveBacklog (dbStore demoStore) demoHash emptyWriter (demoParams ''10'' ''1'' ''3''))
     = Written ''05b05c''
   \<and> RespHeader (serveBacklog (dbStore demoStore) demoHash emptyWriter
        (demoParams ''10'' ''1'' ''3'')) ''ETag'' = Some [demoHash ''05b05c'']
   \<and> out (serveBacklog (dbStore demoStore) demoHash emptyWriter (demoParams ''10'' ''7'' ''9''))
     = Written []
   \<and> out (serveBacklog (dbStore demoStore) demoHash emptyWriter (demoParams ''11'' ''1'' ''3''))
     = Written []
   \<and> serveBacklog dbDown demoHash emptyWriter (demoParams ''10'' ''1'' ''3'')
     = emptyWriter\<lparr>out := TextError 500 (ExternalError ''connection refused'')\<rparr>
   \<and> out (serveBacklog (dbStore demoStore) demoHash emptyWriter (demoParams ''10'' ''x'' ''3''))
     = TextError 400 (NumError ''ParseUint'' ''x'' ErrSyntax)"
proof -
  have r: "rangeLog demoStore 10 (Suc 0) 3 = [''05b'', ''05c'']"
    by (simp add: rangeLog_def demoStore_def)
  have p: "ParseUint (param (demoParams ''10'' ''1'' ''3'') ''thread'') 64 = Inr 10
      \<and> ParseUint (param (demoParams ''10'' ''1'' ''3'') ''start'') 64 = Inr 1
      \<and> ParseUint (param (demoParams ''10'' ''1'' ''3'') ''end'') 64 = Inr 3"
    by (simp add: param_demoParams ParseUint_10 ParseUint_digit)
  from serveBacklog_response [where p = "demoParams ''10'' ''1'' ''3''" and t = 10
        and s = 1 and e = 3 and store = demoStore and H = demoHash and w = emptyWriter] p
  have "out (serveBacklog (dbStore demoStore) demoHash emptyWriter
              (demoParams ''10'' ''1'' ''3'')) = Written (concat (rangeLog demoStore 10 1 3))
     \<and> RespHeader (serveBacklog (dbStore demoStore) demoHash emptyWriter
          (demoParams ''10'' ''1'' ''3'')) ''ETag''
         = Some [demoHash (concat (rangeLog demoStore 10 1 3))]"
    by blast
  then have a: "out (serveBacklog (dbStore demoStore) demoHash emptyWriter
              (demoParams ''10'' ''1'' ''3'')) = Written ''05b05c''
     \<and> RespHeader (serveBacklog (dbStore demoStore) demoHash emptyWriter
          (demoParams ''10'' ''1'' ''3'')) ''ETag'' = Some [demoHash ''05b05c'']"
    by (simp add: r)
  have b: "out (serveBacklog (dbStore demoStore) demoHash emptyWriter
              (demoParams ''10'' ''7'' ''9'')) = Written []"
    using serveBacklog_response [where p = "demoParams ''10'' ''7'' ''9''" and t = 10
        and s = 7 and e = 9 and store = demoStore and H = demoHash and w = emptyWriter]
    by (simp add: param_demoParams ParseUint_10 ParseUint_digit demoStore_def)
  have c: "out (serveBacklog (dbStore demoStore) demoHash emptyWriter
              (demoParams ''11'' ''1'' ''3'')) = Written []"
    using serveBacklog_response [where p = "demoParams ''11'' ''1'' ''3''" and t = 11
        and s = 1 and e = 3 and store = demoStore and H = demoHash and w = emptyWriter]
    by (simp add: param_demoParams ParseUint_11 ParseUint_digit demoStore_def)
  have d: "serveBacklog dbDown demoHash emptyWriter (demoParams ''10'' ''1'' ''3'')
     = emptyWriter\<lparr>out := TextError 500 (ExternalError ''connection refused'')\<rparr>"
    using serveBacklog_response [where p = "demoParams ''10'' ''1'' ''3''" and t = 10
        and s = 1 and e = 3 and dbAll = dbDown and H = demoHash and w = emptyWriter
        and x = "ExternalError ''connection refused''"]
    by (simp add: param_demoParams ParseUint_10 ParseUint_digit dbDown_def)
  have "\<exists>x. serveBacklog (dbStore demoStore) demoHash emptyWriter (demoParams ''10'' ''x'' ''3'')
          = emptyWriter\<lparr>out := TextError 400 x\<rparr>"
    using serveBacklog_response [where p = "demoParams ''10'' ''x'' ''3''"
        and dbAll = "dbStore demoStore" and H = demoHash and w = emptyWriter
        and ?x2.0 = "NumError ''ParseUint'' ''x'' ErrSyntax"]
    by (simp add: param_demoParams ParseUint_x)
  moreover have "serveBacklog (dbStore demoStore) demoHash emptyWriter
        (demoParams ''10'' ''x'' ''3'')
      = emptyWriter\<lparr>out := TextError 400 (NumError ''ParseUint'' ''x'' ErrSyntax)\<rparr>"
    by (simp add: serveBacklog_def param_demoParams ParseUint_10 ParseUint_x text400_def)
  ultimately have e: "out (serveBacklog (dbStore demoStore) demoHash emptyWriter
        (demoParams ''10'' ''x'' ''3'')) = TextError 400 (NumError ''ParseUint'' ''x'' ErrSyntax)"
    by simp
  have q: "ParseUint (param (demoParams ''10'' ''x'' ''3'') ''start'') 64
       = Inl (NumError ''ParseUint'' ''x'' ErrSyntax)"
    by (simp add: param_demoParams ParseUint_x)
  from a b c d e p q show ?thesis by simp
qed

section \<open>The close handshake\<close>

text \<open>
  Claim C8 as stated fails: torn down with a websocket close error whose code is neither
  normal closure nor going away (here 1006), the server sends no invalid-message notice;
  the only frame it hands to the connection is a close frame, with the code 0.
\<close>

theorem closeConnections_close_error_counterexample:
  "closeConnections demoProtocol demoText demoMarshal 0 demoClient
       (Some (CloseError 1006 ''unexpected EOF''))
     = Inr (Some (CloseError 1006 ''unexpected EOF''),
            afterTeardown demoClient (Some (CloseError 1006 ''unexpected EOF''))
              [closeFrame 0 0])"
  by (simp add: closeConnections_def demoClient_def newClient_def demoConn_def Let_def
      WriteControl_def connClose_def afterTeardown_def closeFrame_def
      CloseNormalClosure_def CloseGoingAway_def)

text \<open>
  Claim C8, amended. On a client whose write channel is open, whose update feed channel is
  not closed and whose close channel is open if there is an error: when the error is nil
  or a websocket close error with the code normal closure or going away, the one frame
  handed to the connection is a close frame with the code normal closure; when the error
  is not a websocket close error, the frames are the invalid-message notice with the text
  of the error (if it can be encoded) and then a close frame with the code 1007. In both
  cases the returned error and the frames are the same whatever the writes return: a
  failed write is neither reported nor repeated.
\<close>

theorem closeConnections_frames:
  assumes "write' c = ChanOpen" and "closeUpdateFeed c \<noteq> ChanClosed"
    and "e \<noteq> None \<longrightarrow> close c = ChanOpen"
  shows "(e = None \<or> e = Some (CloseError CloseNormalClosure why)
            \<or> e = Some (CloseError CloseGoingAway why) \<longrightarrow>
          closeConnections P ext marshal now c e
            = Inr (returnedError ext c None,
                   afterTeardown c e [closeFrame CloseNormalClosure now])
          \<and> closeConnections P ext marshal now (withWriteResult wr c) e
            = Inr (returnedError ext c None,
                   withWriteResult wr (afterTeardown c e [closeFrame CloseNormalClosure now])))
       \<and> (e = Some x \<and> (\<forall>code reason. x \<noteq> CloseError code reason) \<longrightarrow>
          closeConnections P ext marshal now c e
            = Inr (returnedError ext c e,
                   afterTeardown c e
                     (noticeFrames P ext marshal x
                      @ [closeFrame CloseInvalidFramePayloadData now]))
          \<and> closeConnections P ext marshal now (withWriteResult wr c) e
            = Inr (returnedError ext c e,
                   withWriteResult wr (afterTeardown c e
                     (noticeFrames P ext marshal x
                      @ [closeFrame CloseInvalidFramePayloadData now]))))"
proof -
  have pre: "write' (withWriteResult wr c) = ChanOpen"
    "closeUpdateFeed (withWriteResult wr c) \<noteq> ChanClosed"
    "e \<noteq> None \<longrightarrow> close (withWriteResult wr c) = ChanOpen"
    using assms by (simp_all add: withWriteResult_fields)
  have normal: "closeConnections P ext marshal now c e
            = Inr (returnedError ext c None,
                   afterTeardown c e [closeFrame CloseNormalClosure now])
          \<and> closeConnections P ext marshal now (withWriteResult wr c) e
            = Inr (returnedError ext c None,
                   withWriteResult wr (afterTeardown c e [closeFrame CloseNormalClosure now]))"
    if h: "e = None \<or> e = Some (CloseError CloseNormalClosure why)
            \<or> e = Some (CloseError CloseGoingAway why)"
    using closeConnections_normal [OF assms h, of P ext marshal now]
      closeConnections_normal [OF pre h, of P ext marshal now]
    by (simp add: withWriteResult_fields)
  have other: "closeConnections P ext marshal now c e
            = Inr (returnedError ext c e,
                   afterTeardown c e
                     (noticeFrames P ext marshal x
                      @ [closeFrame CloseInvalidFramePayloadData now]))
          \<and> closeConnections P ext marshal now (withWriteResult wr c) e
            = Inr (returnedError ext c e,
                   withWriteResult wr (afterTeardown c e
                     (noticeFrames P ext marshal x
                      @ [closeFrame CloseInvalidFramePayloadData now])))"
    if h: "e = Some x" "\<forall>code reason. x \<noteq> CloseError code reason"
  proof -
    from h(1) assms(3) pre(3) have o: "close c = ChanOpen" "close (withWriteResult wr c) = ChanOpen"
      by simp_all
    show ?thesis
      using closeConnections_other [OF assms(1,2) o(1) h(2), of P ext marshal now]
        closeConnections_other [OF pre(1,2) o(2) h(2), of P ext marshal now] h(1)
      by (simp add: withWriteResult_fields)
  qed
  from normal other show ?thesis by blast
qed

theorem closeConnections_frames_witness:
  "write' demoClient = ChanOpen \<and> closeUpdateFeed demoClient \<noteq> ChanClosed
   \<and> close demoClient = ChanOpen
   \<and> closeConnections demoProtocol demoText demoMarshal 0 demoClient
       (Some (errInvalidFrame ''only text frames allowed''))
     = Inr (Some (errInvalidFrame ''only text frames allowed''),
            afterTeardown demoClient (Some (errInvalidFrame ''only text frames allowed''))
              [Message TextMessage (''00'' @ quoted ''only text frames allowed''),
               closeFrame CloseInvalidFramePayloadData 0])
   \<and> closeConnections demoProtocol demoText demoMarshal 0
       (withWriteResult failingWrites demoClient)
       (Some (errInvalidFrame ''only text frames allowed''))
     = Inr (Some (errInvalidFrame ''only text frames allowed''),
            withWriteResult failingWrites
              (afterTeardown demoClient (Some (errInvalidFrame ''only text frames allowed''))
                [Message TextMessage (''00'' @ quoted ''only text frames allowed''),
                 closeFrame CloseInvalidFramePayloadData 0]))
   \<and> closeConnections demoProtocol demoText demoMarshal 0
       (demoClient\<lparr>close := ChanClosed\<rparr>) None
     = Inr (None, afterTeardown (demoClient\<lparr>close := ChanClosed\<rparr>) None
                    [closeFrame CloseNormalClosure 0])
   \<and> closeConnections demoProtocol demoText demoMarshal 0 demoClient
       (Some (CloseError CloseGoingAway ''bye''))
     = Inr (None, afterTeardown demoClient (Some (CloseError CloseGoingAway ''bye''))
                    [closeFrame CloseNormalClosure 0])"
proof -
  have pre: "write' demoClient = ChanOpen" "closeUpdateFeed demoClient \<noteq> ChanClosed"
    "close demoClient = ChanOpen"
    by (simp_all add: demoClient_def newClient_def)
  have pre': "write' (demoClient\<lparr>close := ChanClosed\<rparr>) = ChanOpen"
    "closeUpdateFeed (demoClient\<lparr>close := ChanClosed\<rparr>) \<noteq> ChanClosed"
    using pre by simp_all
  have cr: "closeResult (conn demoClient) = None"
    by (simp add: demoClient_def newClient_def demoConn_def)
  have z: "FormatUint 0 = ''0''" by (simp add: FormatUint.simps [of 0] digits_def)
  have nf: "noticeFrames demoProtocol demoText demoMarshal
              (errInvalidFrame ''only text frames allowed'')
            = [Message TextMessage (''00'' @ quoted ''only text frames allowed'')]"
    by (simp add: noticeFrames_def encodeMessage_def demoMarshal_def demoProtocol_def z copy_def
        quoted_def)
  have a: "closeConnections demoProtocol demoText demoMarshal 0 demoClient
       (Some (errInvalidFrame ''only text frames allowed''))
     = Inr (Some (errInvalidFrame ''only text frames allowed''),
            afterTeardown demoClient (Some (errInvalidFrame ''only text frames allowed''))
              [Message TextMessage (''00'' @ quoted ''only text frames allowed''),
               closeFrame CloseInvalidFramePayloadData 0])
   \<and> closeConnections demoProtocol demoText demoMarshal 0
       (withWriteResult failingWrites demoClient)
       (Some (errInvalidFrame ''only text frames allowed''))
     = Inr (Some (errInvalidFrame ''only text frames allowed''),
            withWriteResult failingWrites
              (afterTeardown demoClient (Some (errInvalidFrame ''only text frames allowed''))
                [Message TextMessage (''00'' @ quoted ''only text frames allowed''),
                 closeFrame CloseInvalidFramePayloadData 0]))"
    using closeConnections_frames [where c = demoClient
        and e = "Some (errInvalidFrame ''only text frames allowed'')"
        and x = "errInvalidFrame ''only text frames allowed''"
        and P = demoProtocol and ext = demoText and marshal = demoMarshal and now = 0
        and wr = failingWrites] pre
    by (simp add: nf returnedError_def cr)
  have b: "closeConnections demoProtocol demoText demoMarshal 0
       (demoClient\<lparr>close := ChanClosed\<rparr>) None
     = Inr (None, afterTeardown (demoClient\<lparr>close := ChanClosed\<rparr>) None
                    [closeFrame CloseNormalClosure 0])"
    using closeConnections_frames [where c = "demoClient\<lparr>close := ChanClosed\<rparr>"
        and e = None and P = demoProtocol and ext = demoText and marshal = demoMarshal
        and now = 0] pre'
    by (simp add: returnedError_def cr)
  have c: "closeConnections demoProtocol demoText demoMarshal 0 demoClient
       (Some (CloseError CloseGoingAway ''bye''))
     = Inr (None, afterTeardown demoClient (Some (CloseError CloseGoingAway ''bye''))
                    [closeFrame CloseNormalClosure 0])"
    using closeConnections_frames [where c = demoClient
        and e = "Some (CloseError CloseGoingAway ''bye'')" and why = "''bye''"
        and P = demoProtocol and ext = demoText and marshal = demoMarshal and now = 0] pre
    by (simp add: returnedError_def cr)
  from a b c pre show ?thesis by simp
qed

end
